theory Spec2Isabelle
  imports Main
begin

section \<open>Data model of backend-fcm/main.py\<close>

text \<open>
  Firestore documents are schemaless Python dicts. A field value is one of the Python
  values below; \<open>truthy\<close> is Python's truth test, used by \<open>if not patient_id\<close> and by the
  token filter \<open>token and isinstance(token, str)\<close>.
\<close>

datatype fs_value =
    VNone
  | VBool bool
  | VInt int
  | VStr string
  | VList "fs_value list"
  | VMap "(string \<times> fs_value) list"
  | VTimestamp nat

type_synonym doc = "string \<rightharpoonup> fs_value"

fun truthy :: "fs_value \<Rightarrow> bool" where
  "truthy VNone = False"
| "truthy (VBool b) = b"
| "truthy (VInt i) = (i \<noteq> 0)"
| "truthy (VStr s) = (s \<noteq> [])"
| "truthy (VList vs) = (vs \<noteq> [])"
| "truthy (VMap kvs) = (kvs \<noteq> [])"
| "truthy (VTimestamp t) = True"

text \<open>\<open>d.get(k)\<close>: the value of the field, \<open>None\<close> when the field is missing.\<close>

definition dict_get :: "doc \<Rightarrow> string \<Rightarrow> fs_value" where
  "dict_get d k = (case d k of None \<Rightarrow> VNone | Some v \<Rightarrow> v)"

text \<open>\<open>d.get(k, default)\<close>.\<close>

definition dict_get_default :: "doc \<Rightarrow> string \<Rightarrow> fs_value \<Rightarrow> fs_value" where
  "dict_get_default d k dflt = (case d k of None \<Rightarrow> dflt | Some v \<Rightarrow> v)"

text \<open>
  \<open>messaging.Message\<close> as the fanout builds it: the notification's title and body, the
  target token, the data dict, and the two platform configurations, which are set
  together exactly when \<open>high_priority\<close> holds.
\<close>

record message =
  msg_token :: string
  msg_title :: string
  msg_body :: string
  msg_data :: "(string \<times> string) list option"
  msg_high_priority :: bool

text \<open>
  What \<open>messaging.send\<close> does with one message: it returns a message id, or raises.
  \<open>InvalidArgumentError\<close> is a subclass of \<open>FirebaseError\<close>; \<open>OtherException\<close> is any
  exception outside that hierarchy.
\<close>

datatype send_outcome =
    Delivered string
  | UnregisteredError
  | InvalidArgumentError
  | FirebaseError
  | OtherException

text \<open>
  Every interaction with the outside world is appended to a trace, in program order:
  document reads and writes, provider sends with their outcome, and each call of
  \<open>remove_unregistered_token\<close>.
\<close>

datatype event =
    UserGet string
  | UserUpdate string
  | ApptGet string
  | ApptUpdate string
  | Send message send_outcome
  | PruneCall fs_value string

record world =
  users :: "string \<rightharpoonup> doc"
  appointments :: "string \<rightharpoonup> doc"
  trace :: "event list"

text \<open>
  The process globals and the behaviour of the two external services. The services are
  arbitrary but fixed: whether the store call made at trace position \<open>n\<close> raises, and
  what the provider answers to the message sent at position \<open>n\<close>. \<open>py_str\<close> is Python's
  \<open>str()\<close> on a value that is not a string, needed only for f-strings. \<open>id_rejected\<close>
  is the validation of a document id by the Firestore client, which is not part of the
  repository: \<open>collection.document(id)\<close> raises \<open>ValueError\<close> for an id it rejects, for
  instance \<open>a/b\<close>, whose path has an odd number of segments.
\<close>

record env =
  firebase_initialized :: bool
  db_present :: bool
  store_raises :: "nat \<Rightarrow> bool"
  exc_text :: "nat \<Rightarrow> string"
  provider :: "nat \<Rightarrow> message \<Rightarrow> send_outcome"
  py_str :: "fs_value \<Rightarrow> string"
  id_rejected :: "string \<Rightarrow> bool"

definition fmt :: "env \<Rightarrow> fs_value \<Rightarrow> string" where
  "fmt e v = (case v of VStr s \<Rightarrow> s | _ \<Rightarrow> py_str e v)"

definition log_event :: "event \<Rightarrow> world \<Rightarrow> world" where
  "log_event ev w = w\<lparr>trace := trace w @ [ev]\<rparr>"

section \<open>Document store access\<close>

text \<open>
  Building a document reference, \<open>db.collection(c).document(id)\<close>, contacts nothing: it
  raises \<open>ValueError\<close> when the client rejects the id. The store holds no document under
  an id its client cannot address, so the call raises only where the world stores none;
  a world that stores a document under an id says by that that the id is addressable.
\<close>

definition user_ref_raises :: "env \<Rightarrow> world \<Rightarrow> string \<Rightarrow> bool" where
  "user_ref_raises e w k = (id_rejected e k \<and> users w k = None)"

definition appointment_ref_raises :: "env \<Rightarrow> world \<Rightarrow> string \<Rightarrow> bool" where
  "appointment_ref_raises e w aid = (id_rejected e aid \<and> appointments w aid = None)"

text \<open>
  \<open>db.collection('users').document(user_id).get()\<close>. A \<open>user_id\<close> that is not a string,
  or one the client rejects, makes \<open>document()\<close> raise before the store is contacted;
  otherwise the read either raises or returns the snapshot (\<open>None\<close> when the document
  does not exist).
\<close>

definition user_doc_get :: "env \<Rightarrow> world \<Rightarrow> fs_value \<Rightarrow> (string + doc option) \<times> world" where
  "user_doc_get e w user_id =
     (case user_id of
        VStr k \<Rightarrow>
          (if user_ref_raises e w k then (Inl ''ValueError'', w)
           else if store_raises e (length (trace w))
           then (Inl (exc_text e (length (trace w))), log_event (UserGet k) w)
           else (Inr (users w k), log_event (UserGet k) w))
      | _ \<Rightarrow> (Inl ''ValueError'', w))"

text \<open>
  \<open>user_ref.update({'fcmTokens': v})\<close>, with \<open>None\<close> standing for
  \<open>firestore.DELETE_FIELD\<close>. A write that raises changes nothing; \<open>update\<close> on a
  document that does not exist raises.
\<close>

definition user_doc_update ::
  "env \<Rightarrow> world \<Rightarrow> fs_value \<Rightarrow> fs_value option \<Rightarrow> (string + unit) \<times> world" where
  "user_doc_update e w user_id new_tokens =
     (case user_id of
        VStr k \<Rightarrow>
          (if store_raises e (length (trace w))
           then (Inl (exc_text e (length (trace w))), log_event (UserUpdate k) w)
           else (case users w k of
                   None \<Rightarrow> (Inl ''NotFound'', log_event (UserUpdate k) w)
                 | Some d \<Rightarrow>
                     (Inr (), log_event (UserUpdate k)
                        (w\<lparr>users := (users w)(k \<mapsto> d(''fcmTokens'' := new_tokens))\<rparr>))))
      | _ \<Rightarrow> (Inl ''ValueError'', w))"

text \<open>
  \<open>appointment_ref.get()\<close> on a reference that has been built: the read raises or returns
  the snapshot. Building the reference is a step of the endpoint, before its \<open>try\<close>.
\<close>

definition appointment_get :: "env \<Rightarrow> world \<Rightarrow> string \<Rightarrow> (string + doc option) \<times> world" where
  "appointment_get e w aid =
     (if store_raises e (length (trace w))
      then (Inl (exc_text e (length (trace w))), log_event (ApptGet aid) w)
      else (Inr (appointments w aid), log_event (ApptGet aid) w))"

text \<open>\<open>appointment_ref.update(update_data)\<close>: the given fields overwrite the stored ones.\<close>

definition appointment_update ::
  "env \<Rightarrow> world \<Rightarrow> string \<Rightarrow> (string \<times> fs_value) list \<Rightarrow> (string + unit) \<times> world" where
  "appointment_update e w aid update_data =
     (if store_raises e (length (trace w))
      then (Inl (exc_text e (length (trace w))), log_event (ApptUpdate aid) w)
      else (case appointments w aid of
              None \<Rightarrow> (Inl ''NotFound'', log_event (ApptUpdate aid) w)
            | Some d \<Rightarrow>
                (Inr (), log_event (ApptUpdate aid)
                   (w\<lparr>appointments := (appointments w)(aid \<mapsto> d ++ map_of update_data)\<rparr>))))"

section \<open>TokenStore: get_user_fcm_tokens and remove_unregistered_token\<close>

text \<open>The comprehension \<open>[token for token in tokens if token and isinstance(token, str)]\<close>.\<close>

fun valid_tokens :: "fs_value list \<Rightarrow> string list" where
  "valid_tokens [] = []"
| "valid_tokens (VStr s # vs) = (if s \<noteq> [] then s # valid_tokens vs else valid_tokens vs)"
| "valid_tokens (v # vs) = valid_tokens vs"

definition get_user_fcm_tokens :: "env \<Rightarrow> world \<Rightarrow> fs_value \<Rightarrow> string \<Rightarrow> string list \<times> world" where
  "get_user_fcm_tokens e w user_id user_type =
     (if \<not> db_present e then ([], w)
      else (case user_doc_get e w user_id of
              (Inl exc, w1) \<Rightarrow> ([], w1)
            | (Inr None, w1) \<Rightarrow> ([], w1)
            | (Inr (Some user_data), w1) \<Rightarrow>
                (case dict_get user_data ''fcmTokens'' of
                   VList tokens \<Rightarrow> (valid_tokens tokens, w1)
                 | VStr s \<Rightarrow> (if s \<noteq> [] then ([s], w1) else ([], w1))
                 | _ \<Rightarrow> ([], w1))))"

definition get_doctor_fcm_tokens :: "env \<Rightarrow> world \<Rightarrow> fs_value \<Rightarrow> string list \<times> world" where
  "get_doctor_fcm_tokens e w doctor_id = get_user_fcm_tokens e w doctor_id ''doctor''"

definition get_patient_fcm_tokens :: "env \<Rightarrow> world \<Rightarrow> fs_value \<Rightarrow> string list \<times> world" where
  "get_patient_fcm_tokens e w patient_id = get_user_fcm_tokens e w patient_id ''patient''"

text \<open>
  \<open>tokens.remove(invalid_token)\<close> removes the first element equal to the token, which
  is \<open>remove1\<close>; a string never equals a value of another type.
\<close>

definition remove_unregistered_token ::
  "env \<Rightarrow> world \<Rightarrow> fs_value \<Rightarrow> string \<Rightarrow> bool \<times> world" where
  "remove_unregistered_token e w0 user_id invalid_token =
     (let w = log_event (PruneCall user_id invalid_token) w0 in
      if \<not> db_present e then (False, w)
      else (case user_doc_get e w user_id of
              (Inl exc, w1) \<Rightarrow> (False, w1)
            | (Inr None, w1) \<Rightarrow> (False, w1)
            | (Inr (Some user_data), w1) \<Rightarrow>
                (case dict_get user_data ''fcmTokens'' of
                   VList tokens \<Rightarrow>
                     (if VStr invalid_token \<in> set tokens
                      then (case user_doc_update e w1 user_id
                                   (Some (VList (remove1 (VStr invalid_token) tokens))) of
                              (Inl exc, w2) \<Rightarrow> (False, w2)
                            | (Inr u, w2) \<Rightarrow> (True, w2))
                      else (False, w1))
                 | VStr s \<Rightarrow>
                     (if s = invalid_token
                      then (case user_doc_update e w1 user_id None of
                              (Inl exc, w2) \<Rightarrow> (False, w2)
                            | (Inr u, w2) \<Rightarrow> (True, w2))
                      else (False, w1))
                 | _ \<Rightarrow> (False, w1))))"

section \<open>FanoutCoordinator: send_notifications_to_user\<close>

datatype http_exception = HTTPException nat string

record fanout_summary =
  status :: string
  success_count :: nat
  failure_count :: nat
  tokens_targeted :: nat
  tokens_removed :: nat

text \<open>The returned dict: the two-key \<open>no_target\<close> dict, or the five-key summary.\<close>

datatype fanout_result = NoTarget string | Summary fanout_summary

definition result_status :: "fanout_result \<Rightarrow> string" where
  "result_status r = (case r of NoTarget m \<Rightarrow> ''no_target'' | Summary s \<Rightarrow> status s)"

text \<open>
  The \<open>for token in tokens\<close> loop, with the three counters as accumulators. The
  \<open>except\<close> clauses are tried in the source's order: \<open>UnregisteredError\<close>, then
  \<open>FirebaseError\<close> (which catches \<open>InvalidArgumentError\<close> too), then \<open>Exception\<close>.
\<close>

fun send_loop ::
  "env \<Rightarrow> fs_value \<Rightarrow> (string \<Rightarrow> message) \<Rightarrow> string list \<Rightarrow> nat \<Rightarrow> nat \<Rightarrow> nat \<Rightarrow> world
     \<Rightarrow> (nat \<times> nat \<times> nat) \<times> world" where
  "send_loop e user_id mk [] sc fc tr w = ((sc, fc, tr), w)"
| "send_loop e user_id mk (token # rest) sc fc tr w =
     (let msg = mk token;
          outcome = provider e (length (trace w)) msg;
          w1 = log_event (Send msg outcome) w
      in case outcome of
           Delivered response \<Rightarrow> send_loop e user_id mk rest (sc + 1) fc tr w1
         | UnregisteredError \<Rightarrow>
             (case remove_unregistered_token e w1 user_id token of
                (True, w2) \<Rightarrow> send_loop e user_id mk rest sc (fc + 1) (tr + 1) w2
              | (False, w2) \<Rightarrow> send_loop e user_id mk rest sc (fc + 1) tr w2)
         | InvalidArgumentError \<Rightarrow> send_loop e user_id mk rest sc (fc + 1) tr w1
         | FirebaseError \<Rightarrow> send_loop e user_id mk rest sc (fc + 1) tr w1
         | OtherException \<Rightarrow> send_loop e user_id mk rest sc (fc + 1) tr w1)"

text \<open>The status computed after the loop from the two counters.\<close>

definition final_status :: "nat \<Rightarrow> nat \<Rightarrow> string" where
  "final_status sc fc =
     (if sc = 0 \<and> fc > 0 then ''failure''
      else if fc > 0 then ''partial_success''
      else ''success'')"

definition send_notifications_to_user ::
  "env \<Rightarrow> world \<Rightarrow> fs_value \<Rightarrow> string \<Rightarrow> string \<Rightarrow> string \<Rightarrow> (string \<times> string) list option \<Rightarrow> bool
     \<Rightarrow> (http_exception + fanout_result) \<times> world" where
  "send_notifications_to_user e w user_id user_type title body data high_priority =
     (if \<not> firebase_initialized e
      then (Inl (HTTPException 503 ''Firebase services not initialized''), w)
      else
        (case (if user_type = ''doctor'' then get_doctor_fcm_tokens e w user_id
               else if user_type = ''patient'' then get_patient_fcm_tokens e w user_id
               else get_user_fcm_tokens e w user_id user_type) of
           (tokens, w1) \<Rightarrow>
             (if tokens = []
              then (Inr (NoTarget (''No FCM tokens available for '' @ user_type @ '' '' @ fmt e user_id)), w1)
              else
                (case send_loop e user_id
                        (\<lambda>token. \<lparr>msg_token = token, msg_title = title, msg_body = body,
                                   msg_data = data, msg_high_priority = high_priority\<rparr>)
                        tokens 0 0 0 w1 of
                   ((sc, fc, tr), w2) \<Rightarrow>
                     (Inr (Summary \<lparr>status = final_status sc fc, success_count = sc,
                                     failure_count = fc, tokens_targeted = length tokens,
                                     tokens_removed = tr\<rparr>), w2)))))"

section \<open>AppointmentWorkflow: update_appointment_status\<close>

datatype appointment_status =
    PENDING
  | CONFIRMED
  | SCHEDULED
  | COMPLETED
  | DECLINED_DOCTOR
  | CANCELLED_PATIENT
  | DECLINED

text \<open>\<open>new_status.value\<close>.\<close>

fun status_value :: "appointment_status \<Rightarrow> string" where
  "status_value PENDING = ''pending''"
| "status_value CONFIRMED = ''confirmed''"
| "status_value SCHEDULED = ''scheduled''"
| "status_value COMPLETED = ''completed''"
| "status_value DECLINED_DOCTOR = ''declined_doctor''"
| "status_value CANCELLED_PATIENT = ''cancelled_patient''"
| "status_value DECLINED = ''declined''"

text \<open>\<open>new_status.name.capitalize()\<close>: first letter upper case, the rest lower case.\<close>

fun status_name_capitalized :: "appointment_status \<Rightarrow> string" where
  "status_name_capitalized PENDING = ''Pending''"
| "status_name_capitalized CONFIRMED = ''Confirmed''"
| "status_name_capitalized SCHEDULED = ''Scheduled''"
| "status_name_capitalized COMPLETED = ''Completed''"
| "status_name_capitalized DECLINED_DOCTOR = ''Declined_doctor''"
| "status_name_capitalized CANCELLED_PATIENT = ''Cancelled_patient''"
| "status_name_capitalized DECLINED = ''Declined''"

record update_payload =
  appointment_id :: string
  new_status :: appointment_status
  doctor_id :: "string option"
  cancellation_reason :: "string option"

record workflow_result =
  wf_status :: string
  wf_message :: string
  notification_result :: fanout_result

text \<open>Truth test of an \<open>Optional[str]\<close>: present and not empty.\<close>

definition opt_truthy :: "string option \<Rightarrow> bool" where
  "opt_truthy x = (case x of None \<Rightarrow> False | Some s \<Rightarrow> s \<noteq> [])"

text \<open>The dict written to the appointment; the timestamp is the server's, taken at the write.\<close>

definition update_data_of :: "update_payload \<Rightarrow> nat \<Rightarrow> (string \<times> fs_value) list" where
  "update_data_of payload now =
     [(''status'', VStr (status_value (new_status payload))),
      (''statusLastUpdatedAt'', VTimestamp now)]
     @ (if opt_truthy (cancellation_reason payload)
        then [(''cancellationReason'', VStr (the (cancellation_reason payload)))]
        else [])"

definition notif_title_of :: "update_payload \<Rightarrow> string" where
  "notif_title_of payload = ''Appointment '' @ status_name_capitalized (new_status payload)"

definition notif_body_of :: "env \<Rightarrow> update_payload \<Rightarrow> doc \<Rightarrow> string" where
  "notif_body_of e payload appointment_data =
     ''Your appointment with Dr. ''
       @ fmt e (dict_get_default appointment_data ''doctorName'' (VStr ''your doctor''))
       @ '' has been '' @ status_value (new_status payload) @ ''.''
       @ (if new_status payload = DECLINED_DOCTOR \<and> opt_truthy (cancellation_reason payload)
          then '' Reason: '' @ the (cancellation_reason payload)
          else [])"

definition data_payload_patient :: "update_payload \<Rightarrow> (string \<times> string) list" where
  "data_payload_patient payload =
     [(''type'', ''appointment_update''),
      (''appointmentId'', appointment_id payload),
      (''newStatus'', status_value (new_status payload)),
      (''route'', ''/appointments/detail/'' @ appointment_id payload)]"

text \<open>
  What the endpoint raises: an \<open>HTTPException\<close>, or the \<open>ValueError\<close> of \<open>document()\<close>,
  which no handler of the endpoint catches.
\<close>

datatype endpoint_raise = HttpError http_exception | UnhandledValueError

text \<open>
  The endpoint. The result is what it raises or the returned dict, with the world after
  the call. The document reference is built after the 503 guard and before the \<open>try\<close>,
  so its \<open>ValueError\<close> escapes. Inside the \<open>try\<close>, the outer \<open>except Exception\<close> turns a
  store exception into a 500 and \<open>except HTTPException: raise\<close> passes the others
  through.
\<close>

definition update_appointment_status ::
  "env \<Rightarrow> world \<Rightarrow> update_payload \<Rightarrow> (endpoint_raise + workflow_result) \<times> world" where
  "update_appointment_status e w payload =
     (if \<not> firebase_initialized e \<or> \<not> db_present e
      then (Inl (HttpError (HTTPException 503 ''Backend services not fully initialized.'')), w)
      else if appointment_ref_raises e w (appointment_id payload)
      then (Inl UnhandledValueError, w)
      else
        (case appointment_get e w (appointment_id payload) of
           (Inl exc, w1) \<Rightarrow>
             (Inl (HttpError (HTTPException 500 (''Failed to update appointment status: '' @ exc))), w1)
         | (Inr None, w1) \<Rightarrow> (Inl (HttpError (HTTPException 404 ''Appointment not found.'')), w1)
         | (Inr (Some appointment_data), w1) \<Rightarrow>
             (let patient_id = dict_get appointment_data ''patientId'';
                  doctor_id_original = dict_get appointment_data ''doctorId''
              in if \<not> truthy patient_id
                 then (Inl (HttpError (HTTPException 500 ''Appointment data incomplete.'')), w1)
                 else if opt_truthy (doctor_id payload)
                         \<and> VStr (the (doctor_id payload)) \<noteq> doctor_id_original
                 then (Inl (HttpError (HTTPException 403 ''Not authorized to update this appointment.'')), w1)
                 else
                   (case appointment_update e w1 (appointment_id payload)
                           (update_data_of payload (length (trace w1))) of
                      (Inl exc, w2) \<Rightarrow>
                        (Inl (HttpError (HTTPException 500
                                (''Failed to update appointment status: '' @ exc))), w2)
                    | (Inr u, w2) \<Rightarrow>
                        (case send_notifications_to_user e w2 patient_id ''patient''
                                (notif_title_of payload)
                                (notif_body_of e payload appointment_data)
                                (Some (data_payload_patient payload)) True of
                           (Inl http_exc, w3) \<Rightarrow> (Inl (HttpError http_exc), w3)
                         | (Inr nres, w3) \<Rightarrow>
                             (Inr \<lparr>wf_status = ''success'',
                                    wf_message = ''Appointment status updated to ''
                                                   @ status_value (new_status payload),
                                    notification_result = nres\<rparr>, w3))))))"

section \<open>Observations on the trace\<close>

text \<open>The provider calls in a trace, each with its outcome, in order.\<close>

fun sends :: "event list \<Rightarrow> (message \<times> send_outcome) list" where
  "sends [] = []"
| "sends (Send m out # evs) = (m, out) # sends evs"
| "sends (ev # evs) = sends evs"

text \<open>The calls of \<open>remove_unregistered_token\<close> in a trace: user id and token, in order.\<close>

fun prune_calls :: "event list \<Rightarrow> (fs_value \<times> string) list" where
  "prune_calls [] = []"
| "prune_calls (PruneCall u t # evs) = (u, t) # prune_calls evs"
| "prune_calls (ev # evs) = prune_calls evs"

text \<open>What a call appended to the trace, given the worlds before and after it.\<close>

definition events_since :: "world \<Rightarrow> world \<Rightarrow> event list" where
  "events_since w w' = drop (length (trace w)) (trace w')"

fun is_delivered :: "send_outcome \<Rightarrow> bool" where
  "is_delivered (Delivered r) = True"
| "is_delivered out = False"

definition delivered_count :: "event list \<Rightarrow> nat" where
  "delivered_count evs = length (filter is_delivered (map snd (sends evs)))"

definition failed_count :: "event list \<Rightarrow> nat" where
  "failed_count evs = length (filter (\<lambda>out. \<not> is_delivered out) (map snd (sends evs)))"

text \<open>The tokens the provider reported as unregistered, one entry per such outcome.\<close>

definition invalid_targets :: "event list \<Rightarrow> string list" where
  "invalid_targets evs =
     map (\<lambda>p. msg_token (fst p)) (filter (\<lambda>p. snd p = UnregisteredError) (sends evs))"

text \<open>The events of one call of \<open>send_notifications_to_user\<close>.\<close>

definition fanout_events ::
  "env \<Rightarrow> world \<Rightarrow> fs_value \<Rightarrow> string \<Rightarrow> string \<Rightarrow> string \<Rightarrow> (string \<times> string) list option \<Rightarrow> bool
     \<Rightarrow> event list" where
  "fanout_events e w user_id user_type title body data high_priority =
     events_since w
       (snd (send_notifications_to_user e w user_id user_type title body data high_priority))"

section \<open>The specification's derivations\<close>

text \<open>
  The status rule as the specification words it, over the counts of delivered and failed
  targets; the code's \<open>final_status\<close> and its early return are compared with it below.
\<close>

definition spec_status :: "nat \<Rightarrow> nat \<Rightarrow> string" where
  "spec_status delivered failed =
     (if failed = 0 \<and> delivered > 0 then ''success''
      else if delivered = 0 \<and> failed > 0 then ''failure''
      else if delivered > 0 \<and> failed > 0 then ''partial_success''
      else ''no_target'')"

text \<open>An entry of a stored token list that resolves to a target: a non-empty string.\<close>

fun well_formed_target :: "fs_value \<Rightarrow> bool" where
  "well_formed_target (VStr s) = (s \<noteq> [])"
| "well_formed_target v = False"

text \<open>
  The entries a user document holds as targets: those of a stored list, or a stored
  single string; any other value, and a missing field, holds none.
\<close>

fun stored_entries :: "fs_value \<Rightarrow> fs_value list" where
  "stored_entries (VList vs) = vs"
| "stored_entries (VStr s) = [VStr s]"
| "stored_entries v = []"

text \<open>
  The data-model invariant of the specification on one user document: a stored token
  list has no duplicate and no empty-string entry.
\<close>

definition tokens_ok :: "doc \<Rightarrow> bool" where
  "tokens_ok d =
     (case d ''fcmTokens'' of
        Some (VList vs) \<Rightarrow> distinct vs \<and> VStr [] \<notin> set vs
      | _ \<Rightarrow> True)"

text \<open>
  The document a successful prune of token \<open>t\<close> leaves: one occurrence of \<open>t\<close>, the first,
  is gone from a stored list; a stored single string is deleted; every other field is as
  it was.
\<close>

definition pruned_doc :: "doc \<Rightarrow> string \<Rightarrow> doc" where
  "pruned_doc d t =
     (case d ''fcmTokens'' of
        Some (VList vs) \<Rightarrow> d(''fcmTokens'' \<mapsto> VList (remove1 (VStr t) vs))
      | _ \<Rightarrow> d(''fcmTokens'' := None))"

text \<open>
  The three rejections of the workflow and the exception each is raised as. A supplied
  \<open>doctor_id\<close> is one that is present and not empty; it must equal the record's
  \<open>doctorId\<close>. \<open>failed_check\<close> names the check a request fails, in the order the endpoint
  makes them: existence, completeness, authorization.
\<close>

datatype workflow_error = RecordNotFound | IncompleteRecord | Unauthorized

fun error_response :: "workflow_error \<Rightarrow> http_exception" where
  "error_response RecordNotFound = HTTPException 404 ''Appointment not found.''"
| "error_response IncompleteRecord = HTTPException 500 ''Appointment data incomplete.''"
| "error_response Unauthorized = HTTPException 403 ''Not authorized to update this appointment.''"

definition actor_mismatch :: "update_payload \<Rightarrow> doc \<Rightarrow> bool" where
  "actor_mismatch payload d =
     (opt_truthy (doctor_id payload) \<and> VStr (the (doctor_id payload)) \<noteq> dict_get d ''doctorId'')"

definition failed_check :: "update_payload \<Rightarrow> doc option \<Rightarrow> workflow_error option" where
  "failed_check payload record =
     (case record of
        None \<Rightarrow> Some RecordNotFound
      | Some d \<Rightarrow>
          (if \<not> truthy (dict_get d ''patientId'') then Some IncompleteRecord
           else if actor_mismatch payload d then Some Unauthorized
           else None))"

section \<open>Concrete scenarios\<close>

text \<open>
  Scenario 1 of the specification: recipient \<open>R\<close> has targets \<open>t1\<close> and \<open>t2\<close>; the
  provider delivers to every token but \<open>t2\<close>, which it reports as unregistered; the store
  never fails.
\<close>

definition env0 :: env where
  "env0 = \<lparr>firebase_initialized = True, db_present = True, store_raises = (\<lambda>n. False),
            exc_text = (\<lambda>n. ''unavailable''),
            provider = (\<lambda>n m. if msg_token m = ''t2'' then UnregisteredError else Delivered ''id''),
            py_str = (\<lambda>v. ''?''), id_rejected = (\<lambda>k. False)\<rparr>"

definition w0 :: world where
  "w0 = \<lparr>users = [''R'' \<mapsto> [''fcmTokens'' \<mapsto> VList [VStr ''t1'', VStr ''t2'']]],
          appointments = Map.empty, trace = []\<rparr>"

definition summary0 :: fanout_summary where
  "summary0 = \<lparr>status = ''partial_success'', success_count = 1, failure_count = 1,
                tokens_targeted = 2, tokens_removed = 1\<rparr>"

text \<open>A user whose stored list is empty, one whose list is malformed, one who stores a
  single token as a string, and one whose list mixes strings with other values.\<close>

definition w_empty_list :: world where
  "w_empty_list = \<lparr>users = [''E'' \<mapsto> [''fcmTokens'' \<mapsto> VList []]],
          appointments = Map.empty, trace = []\<rparr>"

definition w_dup :: world where
  "w_dup = \<lparr>users = [''R'' \<mapsto> [''fcmTokens'' \<mapsto> VList [VStr ''a'', VStr ''a'', VStr '''', VStr ''b'']]],
          appointments = Map.empty, trace = []\<rparr>"

definition w_single :: world where
  "w_single = \<lparr>users = [''S'' \<mapsto> [''fcmTokens'' \<mapsto> VStr ''tok'']],
          appointments = Map.empty, trace = []\<rparr>"

definition mixed_list :: "fs_value list" where
  "mixed_list = [VStr ''a'', VInt 3, VStr '''', VNone, VStr ''b'']"

definition w_mixed :: world where
  "w_mixed = \<lparr>users = [''M'' \<mapsto> [''fcmTokens'' \<mapsto> VList mixed_list]],
          appointments = Map.empty, trace = []\<rparr>"

text \<open>
  An appointment \<open>A\<close> in status \<open>pending\<close> between patient \<open>P\<close> and doctor \<open>D\<close>, a provider
  that fails every send, the doctor's request to confirm, and the same request from
  somebody else.
\<close>

definition env_down :: env where
  "env_down = \<lparr>firebase_initialized = True, db_present = True, store_raises = (\<lambda>n. False),
            exc_text = (\<lambda>n. ''unavailable''),
            provider = (\<lambda>n m. FirebaseError),
            py_str = (\<lambda>v. ''?''), id_rejected = (\<lambda>k. False)\<rparr>"

definition appt0 :: doc where
  "appt0 = [''status'' \<mapsto> VStr ''pending'', ''patientId'' \<mapsto> VStr ''P'', ''doctorId'' \<mapsto> VStr ''D'']"

definition w_appt :: world where
  "w_appt = \<lparr>users = [''P'' \<mapsto> [''fcmTokens'' \<mapsto> VList [VStr ''t1'']]],
              appointments = [''A'' \<mapsto> appt0], trace = []\<rparr>"

definition payload_confirm :: update_payload where
  "payload_confirm = \<lparr>appointment_id = ''A'', new_status = CONFIRMED, doctor_id = Some ''D'',
                       cancellation_reason = None\<rparr>"

definition payload_intruder :: update_payload where
  "payload_intruder = \<lparr>appointment_id = ''A'', new_status = CONFIRMED, doctor_id = Some ''X'',
                       cancellation_reason = None\<rparr>"

text \<open>The same request with an empty string as the acting doctor's id.\<close>

definition payload_blank :: update_payload where
  "payload_blank = \<lparr>appointment_id = ''A'', new_status = CONFIRMED, doctor_id = Some [],
                     cancellation_reason = None\<rparr>"

section \<open>Effects of the store operations and of the fanout loop\<close>

lemma sends_append: "sends (xs @ ys) = sends xs @ sends ys"
  by (induction xs rule: sends.induct) simp_all

lemma prune_calls_append: "prune_calls (xs @ ys) = prune_calls xs @ prune_calls ys"
  by (induction xs rule: prune_calls.induct) simp_all

lemma user_doc_get_trace:
  "user_doc_get e w u = (r, w1) \<Longrightarrow>
     users w1 = users w \<and> appointments w1 = appointments w \<and>
     (\<exists>evs. trace w1 = trace w @ evs \<and> sends evs = [] \<and> prune_calls evs = [])"
  by (auto simp: user_doc_get_def log_event_def split: fs_value.splits if_splits)

lemma user_doc_update_trace:
  "user_doc_update e w u v = (r, w1) \<Longrightarrow>
     appointments w1 = appointments w \<and>
     (\<exists>evs. trace w1 = trace w @ evs \<and> sends evs = [] \<and> prune_calls evs = [])"
  by (auto simp: user_doc_update_def log_event_def split: fs_value.splits if_splits option.splits)

lemma remove_unregistered_token_trace:
  assumes "remove_unregistered_token e w u t = (b, w')"
  shows "appointments w' = appointments w \<and>
     (\<exists>evs. trace w' = trace w @ PruneCall u t # evs \<and> sends evs = [] \<and> prune_calls evs = [])"
proof -
  let ?w0 = "log_event (PruneCall u t) w"
  have t0: "trace ?w0 = trace w @ [PruneCall u t]" "appointments ?w0 = appointments w"
    by (simp_all add: log_event_def)
  show ?thesis
  proof (cases "db_present e")
    case False
    with assms t0 show ?thesis by (auto simp: remove_unregistered_token_def Let_def)
  next
    case True
    obtain r w1 where g: "user_doc_get e ?w0 u = (r, w1)" by (cases "user_doc_get e ?w0 u")
    from user_doc_get_trace[OF g] obtain evs1 where
      w1: "appointments w1 = appointments ?w0" "trace w1 = trace ?w0 @ evs1" "sends evs1 = []" "prune_calls evs1 = []"
      by blast
    have base: "appointments w1 = appointments w \<and>
       (\<exists>evs. trace w1 = trace w @ PruneCall u t # evs \<and> sends evs = [] \<and> prune_calls evs = [])"
      using w1 t0 by simp
    have upd: "appointments w2 = appointments w \<and>
       (\<exists>evs. trace w2 = trace w @ PruneCall u t # evs \<and> sends evs = [] \<and> prune_calls evs = [])"
      if "user_doc_update e w1 u v = (r2, w2)" for v r2 w2
    proof -
      from user_doc_update_trace[OF that] obtain evs2 where
        "appointments w2 = appointments w1" "trace w2 = trace w1 @ evs2" "sends evs2 = []" "prune_calls evs2 = []"
        by blast
      then show ?thesis using w1 t0 by (simp add: sends_append prune_calls_append)
    qed
    from assms True g show ?thesis
      using base upd
      by (auto simp: remove_unregistered_token_def Let_def
          split: sum.splits option.splits fs_value.splits if_splits prod.splits)
  qed
qed


lemma counts_Cons_Send:
  "delivered_count (Send m out # evs) = (if is_delivered out then 1 else 0) + delivered_count evs"
  "failed_count (Send m out # evs) = (if is_delivered out then 0 else 1) + failed_count evs"
  "invalid_targets (Send m out # evs) =
     (if out = UnregisteredError then [msg_token m] else []) @ invalid_targets evs"
  by (simp_all add: delivered_count_def failed_count_def invalid_targets_def)

lemma counts_Cons_Prune:
  "delivered_count (PruneCall u t # evs) = delivered_count evs"
  "failed_count (PruneCall u t # evs) = failed_count evs"
  "invalid_targets (PruneCall u t # evs) = invalid_targets evs"
  by (simp_all add: delivered_count_def failed_count_def invalid_targets_def)

lemma counts_append_silent:
  assumes "sends xs = []"
  shows "delivered_count (xs @ ys) = delivered_count ys"
    and "failed_count (xs @ ys) = failed_count ys"
    and "invalid_targets (xs @ ys) = invalid_targets ys"
  using assms by (simp_all add: delivered_count_def failed_count_def invalid_targets_def sends_append)

lemma send_loop_spec:
  assumes mk: "\<And>t. msg_token (mk t) = t"
  shows "send_loop e u mk ts sc fc tr w = ((sc', fc', tr'), w') \<Longrightarrow>
     appointments w' = appointments w \<and>
     (\<exists>evs. trace w' = trace w @ evs \<and> map fst (sends evs) = map mk ts \<and>
        prune_calls evs = map (Pair u) (invalid_targets evs) \<and>
        sc' = sc + delivered_count evs \<and> fc' = fc + failed_count evs \<and>
        tr' \<le> tr + length (prune_calls evs))"
proof (induction ts arbitrary: sc fc tr w)
  case Nil
  then show ?case
    by (simp add: delivered_count_def failed_count_def invalid_targets_def)
next
  case (Cons token rest)
  let ?msg = "mk token"
  let ?out = "provider e (length (trace w)) ?msg"
  let ?w1 = "log_event (Send ?msg ?out) w"
  have w1: "trace ?w1 = trace w @ [Send ?msg ?out]" "appointments ?w1 = appointments w"
    by (simp_all add: log_event_def)
  show ?case
  proof (cases "?out = UnregisteredError")
    case True
    obtain b w2 where rm: "remove_unregistered_token e ?w1 u token = (b, w2)"
      by (cases "remove_unregistered_token e ?w1 u token")
    from remove_unregistered_token_trace[OF rm] obtain evr where
      w2: "appointments w2 = appointments ?w1" "trace w2 = trace ?w1 @ PruneCall u token # evr"
          "sends evr = []" "prune_calls evr = []"
      by blast
    from Cons.prems True rm
    have rec: "send_loop e u mk rest sc (fc + 1) (if b then tr + 1 else tr) w2 = ((sc', fc', tr'), w')"
      by (cases b) (simp_all add: Let_def)
    from Cons.IH[OF rec] obtain evs where
      ih: "appointments w' = appointments w2" "trace w' = trace w2 @ evs"
          "map fst (sends evs) = map mk rest"
          "prune_calls evs = map (Pair u) (invalid_targets evs)"
          "sc' = sc + delivered_count evs" "fc' = fc + 1 + failed_count evs"
          "tr' \<le> (if b then tr + 1 else tr) + length (prune_calls evs)"
      by auto
    let ?evs = "Send ?msg ?out # PruneCall u token # evr @ evs"
    have "trace w' = trace w @ ?evs" using ih w2 w1 by simp
    moreover have "map fst (sends ?evs) = map mk (token # rest)"
      using ih w2 by (simp add: sends_append)
    moreover have "prune_calls ?evs = map (Pair u) (invalid_targets ?evs)"
      using ih w2 True mk
      by (simp add: prune_calls_append counts_Cons_Send counts_Cons_Prune counts_append_silent)
    moreover have "sc' = sc + delivered_count ?evs" "fc' = fc + failed_count ?evs"
      using ih w2 True
      by (simp_all add: counts_Cons_Send counts_Cons_Prune counts_append_silent)
    moreover have "tr' \<le> tr + length (prune_calls ?evs)"
      using ih w2 by (simp add: prune_calls_append split: if_splits)
    moreover have "appointments w' = appointments w" using ih w2 w1 by simp
    ultimately show ?thesis by blast
  next
    case False
    define sc1 where "sc1 = (if is_delivered ?out then sc + 1 else sc)"
    define fc1 where "fc1 = (if is_delivered ?out then fc else fc + 1)"
    from Cons.prems False
    have rec: "send_loop e u mk rest sc1 fc1 tr ?w1 = ((sc', fc', tr'), w')"
      by (cases ?out) (simp_all add: Let_def sc1_def fc1_def)
    from Cons.IH[OF rec] obtain evs where
      ih: "appointments w' = appointments ?w1" "trace w' = trace ?w1 @ evs"
          "map fst (sends evs) = map mk rest"
          "prune_calls evs = map (Pair u) (invalid_targets evs)"
          "sc' = sc1 + delivered_count evs" "fc' = fc1 + failed_count evs"
          "tr' \<le> tr + length (prune_calls evs)"
      by auto
    let ?evs = "Send ?msg ?out # evs"
    have "trace w' = trace w @ ?evs" using ih w1 by simp
    moreover have "map fst (sends ?evs) = map mk (token # rest)"
      using ih by simp
    moreover have "prune_calls ?evs = map (Pair u) (invalid_targets ?evs)"
      using ih False by (simp add: counts_Cons_Send)
    moreover have "sc' = sc + delivered_count ?evs" "fc' = fc + failed_count ?evs"
      using ih by (simp_all add: counts_Cons_Send sc1_def fc1_def)
    moreover have "tr' \<le> tr + length (prune_calls ?evs)"
      using ih by simp
    moreover have "appointments w' = appointments w" using ih w1 by simp
    ultimately show ?thesis by blast
  qed
qed

lemma events_since_append: "trace w' = trace w @ evs \<Longrightarrow> events_since w w' = evs"
  by (simp add: events_since_def)

lemma get_user_fcm_tokens_trace:
  "get_user_fcm_tokens e w u ut = (ts, w1) \<Longrightarrow>
     users w1 = users w \<and> appointments w1 = appointments w \<and>
     (\<exists>evs. trace w1 = trace w @ evs \<and> sends evs = [] \<and> prune_calls evs = [])"
  by (auto simp: get_user_fcm_tokens_def split: if_splits prod.splits sum.splits option.splits fs_value.splits
      dest!: user_doc_get_trace)

lemma resolve_by_type:
  "(if ut = ''doctor'' then get_doctor_fcm_tokens e w u
    else if ut = ''patient'' then get_patient_fcm_tokens e w u
    else get_user_fcm_tokens e w u ut) = get_user_fcm_tokens e w u ut"
  by (simp add: get_doctor_fcm_tokens_def get_patient_fcm_tokens_def get_user_fcm_tokens_def)

lemma fanout_uninitialized:
  "\<not> firebase_initialized e \<Longrightarrow>
     send_notifications_to_user e w u ut title body data hp =
       (Inl (HTTPException 503 ''Firebase services not initialized''), w)"
  by (simp add: send_notifications_to_user_def)

lemma fanout_no_tokens:
  assumes "firebase_initialized e" "get_user_fcm_tokens e w u ut = ([], w1)"
  shows "send_notifications_to_user e w u ut title body data hp =
       (Inr (NoTarget (''No FCM tokens available for '' @ ut @ '' '' @ fmt e u)), w1)"
  using assms by (simp add: send_notifications_to_user_def resolve_by_type)

lemma fanout_tokens:
  assumes "firebase_initialized e" "get_user_fcm_tokens e w u ut = (ts, w1)" "ts \<noteq> []"
    and "send_loop e u (\<lambda>token. \<lparr>msg_token = token, msg_title = title, msg_body = body,
                                   msg_data = data, msg_high_priority = hp\<rparr>) ts 0 0 0 w1 = ((sc, fc, tr), w2)"
  shows "send_notifications_to_user e w u ut title body data hp =
       (Inr (Summary \<lparr>status = final_status sc fc, success_count = sc,
                                     failure_count = fc, tokens_targeted = length ts,
                                     tokens_removed = tr\<rparr>), w2)"
  using assms by (simp add: send_notifications_to_user_def resolve_by_type)

lemma fanout_spec:
  assumes "send_notifications_to_user e w u ut title body data hp = (Inr r, w')"
  shows "firebase_initialized e \<and> appointments w' = appointments w \<and>
     (\<exists>evs. trace w' = trace w @ evs \<and>
        map (\<lambda>p. msg_token (fst p)) (sends evs) = fst (get_user_fcm_tokens e w u ut) \<and>
        prune_calls evs = map (Pair u) (invalid_targets evs) \<and>
        (case r of
           NoTarget m \<Rightarrow> fst (get_user_fcm_tokens e w u ut) = []
         | Summary s \<Rightarrow>
             status s = final_status (success_count s) (failure_count s) \<and>
             success_count s = delivered_count evs \<and> failure_count s = failed_count evs \<and>
             tokens_targeted s = length (fst (get_user_fcm_tokens e w u ut)) \<and>
             0 < tokens_targeted s \<and>
             tokens_removed s \<le> length (invalid_targets evs)))"
proof -
  have init: "firebase_initialized e"
    using assms fanout_uninitialized[of e w u ut title body data hp] by auto
  obtain ts w1 where g: "get_user_fcm_tokens e w u ut = (ts, w1)"
    by (cases "get_user_fcm_tokens e w u ut")
  from get_user_fcm_tokens_trace[OF g] obtain ev1 where
    w1: "appointments w1 = appointments w" "trace w1 = trace w @ ev1" "sends ev1 = []" "prune_calls ev1 = []"
    by blast
  show ?thesis
  proof (cases "ts = []")
    case True
    with fanout_no_tokens[OF init, of w u ut w1 title body data] g assms
    have "r = NoTarget (''No FCM tokens available for '' @ ut @ '' '' @ fmt e u)" "w' = w1"
      by simp_all
    with w1 g True init show ?thesis
      by (auto simp: invalid_targets_def)
  next
    case False
    let ?mk = "\<lambda>token. \<lparr>msg_token = token, msg_title = title, msg_body = body,
                                   msg_data = data, msg_high_priority = hp\<rparr>"
    obtain sc fc tr w2 where l: "send_loop e u ?mk ts 0 0 0 w1 = ((sc, fc, tr), w2)"
      by (cases "send_loop e u ?mk ts 0 0 0 w1") auto
    from fanout_tokens[OF init g False l] assms
    have r: "r = Summary \<lparr>status = final_status sc fc, success_count = sc,
                failure_count = fc, tokens_targeted = length ts, tokens_removed = tr\<rparr>" "w' = w2"
      by simp_all
    have mk: "\<And>t. msg_token (?mk t) = t" by simp
    from send_loop_spec[of ?mk, OF mk l] obtain evs where
      lp: "appointments w2 = appointments w1" "trace w2 = trace w1 @ evs"
          "map fst (sends evs) = map ?mk ts"
          "prune_calls evs = map (Pair u) (invalid_targets evs)"
          "sc = delivered_count evs" "fc = failed_count evs" "tr \<le> length (prune_calls evs)"
      by auto
    have toks: "map (\<lambda>p. msg_token (fst p)) (sends evs) = ts"
    proof -
      have "map (\<lambda>p. msg_token (fst p)) (sends evs) = map msg_token (map fst (sends evs))"
        by simp
      also have "\<dots> = ts" unfolding lp(3) by (simp add: comp_def)
      finally show ?thesis .
    qed
    let ?evs = "ev1 @ evs"
    have "trace w' = trace w @ ?evs" using r lp w1 by simp
    moreover have "map (\<lambda>p. msg_token (fst p)) (sends ?evs) = fst (get_user_fcm_tokens e w u ut)"
      using toks w1 g by (simp add: sends_append)
    moreover have "prune_calls ?evs = map (Pair u) (invalid_targets ?evs)"
      using lp w1 by (simp add: prune_calls_append counts_append_silent)
    moreover have "status (the_summary) = final_status (success_count the_summary) (failure_count the_summary)"
      if "the_summary = \<lparr>status = final_status sc fc, success_count = sc,
                failure_count = fc, tokens_targeted = length ts, tokens_removed = tr\<rparr>" for the_summary
      using that by simp
    moreover have "sc = delivered_count ?evs" "fc = failed_count ?evs"
      using lp w1 by (simp_all add: counts_append_silent)
    moreover have "tr \<le> length (invalid_targets ?evs)"
      using lp w1 by (simp add: counts_append_silent)
    moreover have "appointments w' = appointments w" using r lp w1 by simp
    ultimately show ?thesis using init r g False by auto
  qed
qed


lemma length_filter_split:
  "length (filter P xs) + length (filter (\<lambda>x. \<not> P x) xs) = length xs"
  by (induction xs) simp_all

lemma counts_sum: "delivered_count evs + failed_count evs = length (sends evs)"
  unfolding delivered_count_def failed_count_def
  using length_filter_split[of is_delivered "map snd (sends evs)"] by simp

lemma final_status_spec: "0 < sc + fc \<Longrightarrow> final_status sc fc = spec_status sc fc"
  by (auto simp: final_status_def spec_status_def)

lemma fanout_events_eq:
  assumes "send_notifications_to_user e w u ut title body data hp = (r, w')" "trace w' = trace w @ evs"
  shows "fanout_events e w u ut title body data hp = evs"
  using assms by (simp add: fanout_events_def events_since_def)

lemma fanout_total:
  assumes "firebase_initialized e"
  shows "\<exists>r w'. send_notifications_to_user e w u ut title body data hp = (Inr r, w')"
proof -
  obtain ts w1 where g: "get_user_fcm_tokens e w u ut = (ts, w1)"
    by (cases "get_user_fcm_tokens e w u ut")
  show ?thesis
  proof (cases "ts = []")
    case True
    with fanout_no_tokens[OF assms, of w u ut w1] g show ?thesis by blast
  next
    case False
    let ?mk = "\<lambda>token. \<lparr>msg_token = token, msg_title = title, msg_body = body,
                                   msg_data = data, msg_high_priority = hp\<rparr>"
    obtain sc fc tr w2 where l: "send_loop e u ?mk ts 0 0 0 w1 = ((sc, fc, tr), w2)"
      by (cases "send_loop e u ?mk ts 0 0 0 w1") auto
    from fanout_tokens[OF assms g False l] show ?thesis by blast
  qed
qed

lemma fanout_events_uninitialized:
  "\<not> firebase_initialized e \<Longrightarrow> fanout_events e w u ut title body data hp = []"
  by (simp add: fanout_events_def events_since_def fanout_uninitialized)

lemma fanout_obs:
  assumes "fst (send_notifications_to_user e w u ut title body data hp) = Inr r"
  defines "evs \<equiv> fanout_events e w u ut title body data hp"
  shows "map (\<lambda>p. msg_token (fst p)) (sends evs) = fst (get_user_fcm_tokens e w u ut)"
    and "prune_calls evs = map (Pair u) (invalid_targets evs)"
    and "case r of
           NoTarget m \<Rightarrow> fst (get_user_fcm_tokens e w u ut) = []
         | Summary s \<Rightarrow>
             status s = final_status (success_count s) (failure_count s) \<and>
             success_count s = delivered_count evs \<and> failure_count s = failed_count evs \<and>
             tokens_targeted s = length (fst (get_user_fcm_tokens e w u ut)) \<and>
             0 < tokens_targeted s \<and>
             tokens_removed s \<le> length (invalid_targets evs)"
proof -
  obtain w' where run: "send_notifications_to_user e w u ut title body data hp = (Inr r, w')"
    using assms(1) by (cases "send_notifications_to_user e w u ut title body data hp") auto
  from fanout_spec[OF run] obtain evs' where
    sp: "trace w' = trace w @ evs'"
        "map (\<lambda>p. msg_token (fst p)) (sends evs') = fst (get_user_fcm_tokens e w u ut)"
        "prune_calls evs' = map (Pair u) (invalid_targets evs')"
        "case r of
           NoTarget m \<Rightarrow> fst (get_user_fcm_tokens e w u ut) = []
         | Summary s \<Rightarrow>
             status s = final_status (success_count s) (failure_count s) \<and>
             success_count s = delivered_count evs' \<and> failure_count s = failed_count evs' \<and>
             tokens_targeted s = length (fst (get_user_fcm_tokens e w u ut)) \<and>
             0 < tokens_targeted s \<and>
             tokens_removed s \<le> length (invalid_targets evs')"
    by blast
  have eq: "evs = evs'" unfolding evs_def using fanout_events_eq[OF run sp(1)] .
  show "map (\<lambda>p. msg_token (fst p)) (sends evs) = fst (get_user_fcm_tokens e w u ut)"
    unfolding eq by (rule sp(2))
  show "prune_calls evs = map (Pair u) (invalid_targets evs)"
    unfolding eq by (rule sp(3))
  show "case r of
           NoTarget m \<Rightarrow> fst (get_user_fcm_tokens e w u ut) = []
         | Summary s \<Rightarrow>
             status s = final_status (success_count s) (failure_count s) \<and>
             success_count s = delivered_count evs \<and> failure_count s = failed_count evs \<and>
             tokens_targeted s = length (fst (get_user_fcm_tokens e w u ut)) \<and>
             0 < tokens_targeted s \<and>
             tokens_removed s \<le> length (invalid_targets evs)"
    unfolding eq by (rule sp(4))
qed


lemma prune_absent_target:
  assumes "users w k = Some d" "d ''fcmTokens'' = Some (VList vs)" "VStr tok \<notin> set vs"
  shows "fst (remove_unregistered_token e w (VStr k) tok) = False
         \<and> users (snd (remove_unregistered_token e w (VStr k) tok)) = users w"
  using assms
  by (simp add: remove_unregistered_token_def Let_def user_doc_get_def user_ref_raises_def
      log_event_def dict_get_def)


lemma valid_tokens_filter: "map VStr (valid_tokens vs) = filter well_formed_target vs"
  by (induction vs rule: valid_tokens.induct) simp_all

lemma get_tokens_absent:
  "users w k = None \<Longrightarrow> fst (get_user_fcm_tokens e w (VStr k) ut) = []"
  by (simp add: get_user_fcm_tokens_def user_doc_get_def log_event_def)

lemma get_tokens_present:
  assumes "db_present e" "\<not> store_raises e (length (trace w))" "users w k = Some d"
  shows "map VStr (fst (get_user_fcm_tokens e w (VStr k) ut))
           = filter well_formed_target (stored_entries (dict_get d ''fcmTokens''))"
proof -
  have run: "get_user_fcm_tokens e w (VStr k) ut =
      (case dict_get d ''fcmTokens'' of
         VList tokens \<Rightarrow> (valid_tokens tokens, log_event (UserGet k) w)
       | VStr s \<Rightarrow> (if s \<noteq> [] then ([s], log_event (UserGet k) w) else ([], log_event (UserGet k) w))
       | _ \<Rightarrow> ([], log_event (UserGet k) w))"
    using assms
    by (simp add: get_user_fcm_tokens_def user_doc_get_def user_ref_raises_def)
  show ?thesis
    unfolding run by (cases "dict_get d ''fcmTokens''") (simp_all add: valid_tokens_filter)
qed

lemma prune_success_cases:
  assumes "remove_unregistered_token e w (VStr k) t = (True, w')"
  shows "\<exists>d. users w k = Some d \<and>
           ((\<exists>vs. d ''fcmTokens'' = Some (VList vs) \<and> VStr t \<in> set vs \<and>
                  users w' = (users w)(k \<mapsto> d(''fcmTokens'' \<mapsto> VList (remove1 (VStr t) vs))))
            \<or> (d ''fcmTokens'' = Some (VStr t) \<and>
                  users w' = (users w)(k \<mapsto> d(''fcmTokens'' := None))))"
  using assms
  by (auto simp: remove_unregistered_token_def Let_def user_doc_get_def user_doc_update_def
        log_event_def dict_get_def
      split: if_splits option.splits fs_value.splits)

lemma prune_success_doc:
  assumes "remove_unregistered_token e w (VStr k) t = (True, w')" and "users w k = Some d"
  shows "users w' = (users w)(k \<mapsto> pruned_doc d t)"
proof -
  from prune_success_cases[OF assms(1)] assms(2)
  consider vs where "d ''fcmTokens'' = Some (VList vs)"
      "users w' = (users w)(k \<mapsto> d(''fcmTokens'' \<mapsto> VList (remove1 (VStr t) vs)))"
    | "d ''fcmTokens'' = Some (VStr t)" "users w' = (users w)(k \<mapsto> d(''fcmTokens'' := None))"
    by auto
  then show ?thesis by cases (simp_all add: pruned_doc_def)
qed

lemma pruned_doc_ok: "tokens_ok d \<Longrightarrow> tokens_ok (pruned_doc d t)"
  by (auto simp: tokens_ok_def pruned_doc_def split: option.splits fs_value.splits
      dest: notin_set_remove1)

lemma fanout_keeps_appointments:
  "appointments (snd (send_notifications_to_user e w u ut title body data hp)) = appointments w"
proof (cases "firebase_initialized e")
  case True
  from fanout_total[OF True] obtain r w' where
    run: "send_notifications_to_user e w u ut title body data hp = (Inr r, w')" by blast
  from fanout_spec[OF run] run show ?thesis by simp
next
  case False
  then show ?thesis by (simp add: fanout_uninitialized)
qed

lemma fanout_trace:
  "trace (snd (send_notifications_to_user e w u ut title body data hp))
     = trace w @ fanout_events e w u ut title body data hp"
proof (cases "firebase_initialized e")
  case True
  from fanout_total[OF True] obtain r w' where
    run: "send_notifications_to_user e w u ut title body data hp = (Inr r, w')" by blast
  from fanout_spec[OF run] obtain evs where "trace w' = trace w @ evs" by blast
  with run show ?thesis by (simp add: fanout_events_def events_since_def)
next
  case False
  then show ?thesis by (simp add: fanout_uninitialized fanout_events_def events_since_def)
qed

section \<open>The two paths of the workflow\<close>

lemma update_data_status:
  "map_of (update_data_of p now) ''status'' = Some (VStr (status_value (new_status p)))"
  by (simp add: update_data_of_def)

lemma rejected_id_escapes:
  assumes "firebase_initialized e" "db_present e"
    and "id_rejected e (appointment_id p)" "appointments w (appointment_id p) = None"
  shows "update_appointment_status e w p = (Inl UnhandledValueError, w)"
  using assms by (simp add: update_appointment_status_def appointment_ref_raises_def)

lemma workflow_rejected:
  assumes "firebase_initialized e" "db_present e"
    and "\<not> appointment_ref_raises e w (appointment_id p)"
    and "\<not> store_raises e (length (trace w))"
    and "failed_check p (appointments w (appointment_id p)) = Some err"
  shows "update_appointment_status e w p
           = (Inl (HttpError (error_response err)), log_event (ApptGet (appointment_id p)) w)"
  using assms
  by (auto simp: update_appointment_status_def appointment_get_def failed_check_def
        actor_mismatch_def Let_def
      split: option.splits if_splits)

lemma workflow_accepted:
  assumes "firebase_initialized e" "db_present e" "\<not> store_raises e (length (trace w))"
    and "appointments w (appointment_id p) = Some d"
    and "failed_check p (Some d) = None"
    and "\<not> store_raises e (Suc (length (trace w)))"
  defines "w2 \<equiv> w\<lparr>appointments := (appointments w)(appointment_id p \<mapsto>
                        d ++ map_of (update_data_of p (Suc (length (trace w))))),
                   trace := trace w @ [ApptGet (appointment_id p), ApptUpdate (appointment_id p)]\<rparr>"
  shows "update_appointment_status e w p =
     (case send_notifications_to_user e w2 (dict_get d ''patientId'') ''patient''
                                (notif_title_of p) (notif_body_of e p d)
                                (Some (data_payload_patient p)) True of
        (Inl http_exc, w3) \<Rightarrow> (Inl (HttpError http_exc), w3)
      | (Inr nres, w3) \<Rightarrow>
          (Inr \<lparr>wf_status = ''success'',
                 wf_message = ''Appointment status updated to '' @ status_value (new_status p),
                 notification_result = nres\<rparr>, w3))"
  using assms(1-6) unfolding w2_def
  by (auto simp: update_appointment_status_def appointment_get_def appointment_update_def
        appointment_ref_raises_def failed_check_def actor_mismatch_def Let_def log_event_def
      split: if_splits)

section \<open>Evaluating the scenarios\<close>

lemmas model_defs =
  send_notifications_to_user_def get_user_fcm_tokens_def get_doctor_fcm_tokens_def
  get_patient_fcm_tokens_def user_doc_get_def user_ref_raises_def user_doc_update_def
  log_event_def dict_get_def
  remove_unregistered_token_def final_status_def fanout_events_def events_since_def
  result_status_def fmt_def


lemma run0:
  "fst (send_notifications_to_user env0 w0 (VStr ''R'') ''user'' ''Hi'' ''There'' None False)
     = Inr (Summary summary0)"
  by (simp add: model_defs env0_def w0_def summary0_def)


lemma init0: "firebase_initialized env0"
  by (simp add: env0_def)

lemma tokens0: "fst (get_user_fcm_tokens env0 w0 (VStr ''R'') ''user'') = [''t1'', ''t2'']"
  by (simp add: model_defs env0_def w0_def)


lemma ghost0: "fst (get_user_fcm_tokens env0 w0 (VStr ''ghost'') ''user'') = []"
  by (simp add: model_defs env0_def w0_def)

lemmas workflow_defs =
  update_appointment_status_def appointment_get_def appointment_update_def update_data_of_def
  notif_title_of_def notif_body_of_def data_payload_patient_def opt_truthy_def
  dict_get_default_def actor_mismatch_def failed_check_def appointment_ref_raises_def

lemma accept0:
  "firebase_initialized env_down" "db_present env_down"
  "\<not> store_raises env_down (length (trace w_appt))"
  "appointments w_appt (appointment_id payload_confirm) = Some appt0"
  "truthy (dict_get appt0 ''patientId'')"
  "\<not> actor_mismatch payload_confirm appt0"
  "\<not> store_raises env_down (Suc (length (trace w_appt)))"
  by (simp_all add: env_down_def w_appt_def appt0_def payload_confirm_def dict_get_def
      actor_mismatch_def opt_truthy_def)

lemma run_down:
  "fst (update_appointment_status env_down w_appt payload_confirm)
     = Inr \<lparr>wf_status = ''success'', wf_message = ''Appointment status updated to confirmed'',
             notification_result = Summary \<lparr>status = ''failure'', success_count = 0,
                failure_count = 1, tokens_targeted = 1, tokens_removed = 0\<rparr>\<rparr>"
  by (simp add: workflow_defs model_defs env_down_def w_appt_def appt0_def payload_confirm_def)

lemma reject0:
  "firebase_initialized env_down" "db_present env_down"
  "\<not> appointment_ref_raises env_down w_appt (appointment_id payload_intruder)"
  "\<not> store_raises env_down (length (trace w_appt))"
  "failed_check payload_intruder (appointments w_appt (appointment_id payload_intruder)) = Some Unauthorized"
  by (simp_all add: env_down_def w_appt_def appt0_def payload_intruder_def dict_get_def
      actor_mismatch_def opt_truthy_def failed_check_def appointment_ref_raises_def)

lemma single0:
  "db_present env0" "\<forall>n. \<not> store_raises env0 n"
  "users w_single ''S'' = Some [''fcmTokens'' \<mapsto> VStr ''tok'']"
  "[''fcmTokens'' \<mapsto> VStr ''tok''] ''fcmTokens'' = Some (VStr ''tok'')"
  "''tok'' \<noteq> []"
  by (simp_all add: env0_def w_single_def)

lemma prune0:
  "fst (remove_unregistered_token env0 w0 (VStr ''R'') ''t2'')"
  "users w0 ''R'' = Some [''fcmTokens'' \<mapsto> VList [VStr ''t1'', VStr ''t2'']]"
  "tokens_ok [''fcmTokens'' \<mapsto> VList [VStr ''t1'', VStr ''t2'']]"
  by (simp_all add: model_defs env0_def w0_def tokens_ok_def)

section \<open>Fanout: status, counts and pruning\<close>

text \<open>
  Claim C3. The status of a fanout result is a function of the delivered and failed counts
  alone: no failure and at least one delivery gives \<open>success\<close>, no delivery and at least
  one failure gives \<open>failure\<close>, both give \<open>partial_success\<close>, and no target at all
  gives \<open>no_target\<close>. The counts are those of the provider outcomes of the call, and the
  summary reports exactly them.
\<close>

theorem fanout_status_from_counts:
  assumes "fst (send_notifications_to_user e w u ut title body data hp) = Inr r"
  shows "result_status r =
           spec_status (delivered_count (fanout_events e w u ut title body data hp))
                       (failed_count (fanout_events e w u ut title body data hp))
         \<and> (case r of
              NoTarget m \<Rightarrow> sends (fanout_events e w u ut title body data hp) = []
            | Summary s \<Rightarrow>
                success_count s = delivered_count (fanout_events e w u ut title body data hp) \<and>
                failure_count s = failed_count (fanout_events e w u ut title body data hp) \<and>
                status s = spec_status (success_count s) (failure_count s))"
proof -
  let ?evs = "fanout_events e w u ut title body data hp"
  note ob = fanout_obs[OF assms]
  have len: "length (sends ?evs) = length (fst (get_user_fcm_tokens e w u ut))"
    using arg_cong[OF ob(1), of length] by simp
  show ?thesis
  proof (cases r)
    case (NoTarget m)
    with ob(3) len have "sends ?evs = []" by simp
    then show ?thesis using NoTarget
      by (simp add: result_status_def spec_status_def delivered_count_def failed_count_def)
  next
    case (Summary s)
    with ob(3) have s: "status s = final_status (success_count s) (failure_count s)"
      "success_count s = delivered_count ?evs" "failure_count s = failed_count ?evs"
      "tokens_targeted s = length (fst (get_user_fcm_tokens e w u ut))" "0 < tokens_targeted s"
      by auto
    have "0 < success_count s + failure_count s"
      using s len counts_sum[of ?evs] by simp
    from final_status_spec[OF this] s Summary show ?thesis
      by (simp add: result_status_def)
  qed
qed

theorem fanout_status_from_counts_witness:
  "fst (send_notifications_to_user env0 w0 (VStr ''R'') ''user'' ''Hi'' ''There'' None False)
     = Inr (Summary summary0)
   \<and> result_status (Summary summary0) =
           spec_status (delivered_count (fanout_events env0 w0 (VStr ''R'') ''user'' ''Hi'' ''There'' None False))
                       (failed_count (fanout_events env0 w0 (VStr ''R'') ''user'' ''Hi'' ''There'' None False))
   \<and> result_status (Summary summary0) = ''partial_success''"
proof -
  from fanout_status_from_counts[OF run0]
  have "result_status (Summary summary0) =
           spec_status (delivered_count (fanout_events env0 w0 (VStr ''R'') ''user'' ''Hi'' ''There'' None False))
                       (failed_count (fanout_events env0 w0 (VStr ''R'') ''user'' ''Hi'' ''There'' None False))"
    by (rule conjunct1)
  moreover have "result_status (Summary summary0) = ''partial_success''"
    by (simp add: result_status_def summary0_def)
  ultimately show ?thesis using run0 by blast
qed

text \<open>
  Claim C9. In every summary the fanout returns, \<open>success_count + failure_count\<close> equals
  \<open>tokens_targeted\<close>, which is the number of resolved tokens and the number of provider
  calls made: every targeted token is counted by exactly one outcome.
\<close>

theorem fanout_counts_add_up:
  assumes "fst (send_notifications_to_user e w u ut title body data hp) = Inr (Summary s)"
  shows "success_count s + failure_count s = tokens_targeted s
         \<and> tokens_targeted s = length (fst (get_user_fcm_tokens e w u ut))
         \<and> tokens_targeted s = length (sends (fanout_events e w u ut title body data hp))
         \<and> success_count s = delivered_count (fanout_events e w u ut title body data hp)
         \<and> failure_count s = failed_count (fanout_events e w u ut title body data hp)"
proof -
  let ?evs = "fanout_events e w u ut title body data hp"
  note ob = fanout_obs[OF assms]
  have len: "length (sends ?evs) = length (fst (get_user_fcm_tokens e w u ut))"
    using arg_cong[OF ob(1), of length] by simp
  from ob(3) len counts_sum[of ?evs] show ?thesis by simp
qed

theorem fanout_counts_add_up_witness:
  "fst (send_notifications_to_user env0 w0 (VStr ''R'') ''user'' ''Hi'' ''There'' None False)
     = Inr (Summary summary0)
   \<and> success_count summary0 + failure_count summary0 = tokens_targeted summary0
   \<and> tokens_targeted summary0 = 2"
proof -
  from fanout_counts_add_up[OF run0]
  have "success_count summary0 + failure_count summary0 = tokens_targeted summary0"
    by (rule conjunct1)
  moreover have "tokens_targeted summary0 = 2" by (simp add: summary0_def)
  ultimately show ?thesis using run0 by blast
qed

text \<open>
  Claim C6. The fanout sends to every resolved target, once and in order, whatever the
  outcomes of the earlier sends; each outcome that is not a delivery is counted as a
  failure and the loop goes on.
\<close>

theorem fanout_sends_to_every_target:
  assumes "firebase_initialized e"
  shows "map (\<lambda>p. msg_token (fst p)) (sends (fanout_events e w u ut title body data hp))
           = fst (get_user_fcm_tokens e w u ut)
         \<and> (case fst (send_notifications_to_user e w u ut title body data hp) of
              Inr (Summary s) \<Rightarrow>
                failure_count s = failed_count (fanout_events e w u ut title body data hp)
            | _ \<Rightarrow> True)"
proof -
  from fanout_total[OF assms] obtain r w' where
    run: "send_notifications_to_user e w u ut title body data hp = (Inr r, w')" by blast
  then have f: "fst (send_notifications_to_user e w u ut title body data hp) = Inr r" by simp
  note ob = fanout_obs[OF f]
  have "case fst (send_notifications_to_user e w u ut title body data hp) of
              Inr (Summary s) \<Rightarrow>
                failure_count s = failed_count (fanout_events e w u ut title body data hp)
            | _ \<Rightarrow> True"
    using ob(3) by (cases r) (simp_all add: f)
  with ob(1) show ?thesis by blast
qed

theorem fanout_sends_to_every_target_witness:
  "firebase_initialized env0
   \<and> map (\<lambda>p. msg_token (fst p)) (sends (fanout_events env0 w0 (VStr ''R'') ''user'' ''Hi'' ''There'' None False))
       = [''t1'', ''t2'']"
proof -
  from fanout_sends_to_every_target[OF init0, of w0 "VStr ''R''" "''user''" "''Hi''" "''There''" None False]
  have "map (\<lambda>p. msg_token (fst p)) (sends (fanout_events env0 w0 (VStr ''R'') ''user'' ''Hi'' ''There'' None False))
       = fst (get_user_fcm_tokens env0 w0 (VStr ''R'') ''user'')"
    by (rule conjunct1)
  with tokens0 init0 show ?thesis by simp
qed

text \<open>
  Claim C4. When the recipient resolves to no target, the fanout returns status
  \<open>no_target\<close> and the provider is not called.
\<close>

theorem no_target_without_provider_call:
  assumes "firebase_initialized e" and "fst (get_user_fcm_tokens e w u ut) = []"
  shows "fst (send_notifications_to_user e w u ut title body data hp)
           = Inr (NoTarget (''No FCM tokens available for '' @ ut @ '' '' @ fmt e u))
         \<and> result_status (NoTarget (''No FCM tokens available for '' @ ut @ '' '' @ fmt e u)) = ''no_target''
         \<and> sends (fanout_events e w u ut title body data hp) = []"
proof -
  obtain w1 where g: "get_user_fcm_tokens e w u ut = ([], w1)"
    using assms(2) by (cases "get_user_fcm_tokens e w u ut") auto
  note run = fanout_no_tokens[OF assms(1) g, of title body data hp]
  then have f: "fst (send_notifications_to_user e w u ut title body data hp)
           = Inr (NoTarget (''No FCM tokens available for '' @ ut @ '' '' @ fmt e u))" by simp
  from fanout_obs(1)[OF f] assms(2) have "sends (fanout_events e w u ut title body data hp) = []"
    by simp
  with f show ?thesis by (simp add: result_status_def)
qed

theorem no_target_without_provider_call_witness:
  "firebase_initialized env0
   \<and> fst (get_user_fcm_tokens env0 w0 (VStr ''ghost'') ''user'') = []
   \<and> fst (send_notifications_to_user env0 w0 (VStr ''ghost'') ''user'' ''Hi'' ''There'' None False)
           = Inr (NoTarget ''No FCM tokens available for user ghost'')
   \<and> sends (fanout_events env0 w0 (VStr ''ghost'') ''user'' ''Hi'' ''There'' None False) = []"
  using no_target_without_provider_call[OF init0 ghost0, of "''Hi''" "''There''" None False] init0 ghost0
  by (simp add: fmt_def)

text \<open>
  Claim C5. During a fanout, \<open>remove_unregistered_token\<close> is called exactly once for each
  outcome \<open>UnregisteredError\<close>, with that token; whatever the pruning does, also when the
  store raises, the fanout returns its result; and pruning a token that is not in the
  stored list returns \<open>False\<close> and leaves the store as it was.
\<close>

theorem invalid_targets_pruned_once:
  "prune_calls (fanout_events e w u ut title body data hp)
     = map (Pair u) (invalid_targets (fanout_events e w u ut title body data hp))
   \<and> (firebase_initialized e \<longrightarrow>
        (\<exists>r. fst (send_notifications_to_user e w u ut title body data hp) = Inr r))
   \<and> (users w2 k = Some d \<and> d ''fcmTokens'' = Some (VList vs) \<and> VStr tok \<notin> set vs \<longrightarrow>
        fst (remove_unregistered_token e2 w2 (VStr k) tok) = False
        \<and> users (snd (remove_unregistered_token e2 w2 (VStr k) tok)) = users w2)"
proof (intro conjI impI)
  show "prune_calls (fanout_events e w u ut title body data hp)
     = map (Pair u) (invalid_targets (fanout_events e w u ut title body data hp))"
  proof (cases "firebase_initialized e")
    case True
    from fanout_total[OF True] obtain r w' where
      "send_notifications_to_user e w u ut title body data hp = (Inr r, w')" by blast
    then have "fst (send_notifications_to_user e w u ut title body data hp) = Inr r" by simp
    from fanout_obs(2)[OF this] show ?thesis .
  next
    case False
    then show ?thesis by (simp add: fanout_events_uninitialized invalid_targets_def)
  qed
next
  assume "firebase_initialized e"
  from fanout_total[OF this] obtain r w' where
    "send_notifications_to_user e w u ut title body data hp = (Inr r, w')" by blast
  then show "\<exists>r. fst (send_notifications_to_user e w u ut title body data hp) = Inr r" by simp
next
  assume a: "users w2 k = Some d \<and> d ''fcmTokens'' = Some (VList vs) \<and> VStr tok \<notin> set vs"
  then show "fst (remove_unregistered_token e2 w2 (VStr k) tok) = False"
    using prune_absent_target[of w2 k d vs tok e2] by simp
  from a show "users (snd (remove_unregistered_token e2 w2 (VStr k) tok)) = users w2"
    using prune_absent_target[of w2 k d vs tok e2] by simp
qed

theorem invalid_targets_pruned_once_witness:
  "prune_calls (fanout_events env0 w0 (VStr ''R'') ''user'' ''Hi'' ''There'' None False)
     = [(VStr ''R'', ''t2'')]
   \<and> firebase_initialized env0
   \<and> (\<exists>r. fst (send_notifications_to_user env0 w0 (VStr ''R'') ''user'' ''Hi'' ''There'' None False) = Inr r)
   \<and> users w0 ''R'' = Some [''fcmTokens'' \<mapsto> VList [VStr ''t1'', VStr ''t2'']]
   \<and> VStr ''t9'' \<notin> set [VStr ''t1'', VStr ''t2'']
   \<and> fst (remove_unregistered_token env0 w0 (VStr ''R'') ''t9'') = False
   \<and> users (snd (remove_unregistered_token env0 w0 (VStr ''R'') ''t9'')) = users w0"
proof -
  have u: "users w0 ''R'' = Some [''fcmTokens'' \<mapsto> VList [VStr ''t1'', VStr ''t2'']]"
    by (simp add: w0_def)
  have f: "[''fcmTokens'' \<mapsto> VList [VStr ''t1'', VStr ''t2'']] ''fcmTokens'' = Some (VList [VStr ''t1'', VStr ''t2''])"
    by simp
  have n: "VStr ''t9'' \<notin> set [VStr ''t1'', VStr ''t2'']" by simp
  have inv: "invalid_targets (fanout_events env0 w0 (VStr ''R'') ''user'' ''Hi'' ''There'' None False) = [''t2'']"
    by (simp add: model_defs env0_def w0_def invalid_targets_def)
  note th = invalid_targets_pruned_once[of env0 w0 "VStr ''R''" "''user''" "''Hi''" "''There''" None False
      w0 "''R''" "[''fcmTokens'' \<mapsto> VList [VStr ''t1'', VStr ''t2'']]" "[VStr ''t1'', VStr ''t2'']" "''t9''" env0]
  from th inv have "prune_calls (fanout_events env0 w0 (VStr ''R'') ''user'' ''Hi'' ''There'' None False)
     = [(VStr ''R'', ''t2'')]" by simp
  moreover from th init0 have "\<exists>r. fst (send_notifications_to_user env0 w0 (VStr ''R'') ''user'' ''Hi'' ''There'' None False) = Inr r"
    by blast
  moreover from th u f n have "fst (remove_unregistered_token env0 w0 (VStr ''R'') ''t9'') = False
   \<and> users (snd (remove_unregistered_token env0 w0 (VStr ''R'') ''t9'')) = users w0"
    by blast
  ultimately show ?thesis using init0 u n by blast
qed

section \<open>Token store: resolving and pruning\<close>

text \<open>
  Claim C7, as stated, at a concrete input: for a recipient id with no record,
  \<open>get_user_fcm_tokens\<close> does not fail; it returns the empty list, the same value it
  returns for a record that exists and holds an empty list.
\<close>

theorem resolve_targets_counterexample:
  "users w0 ''ghost'' = None
   \<and> get_user_fcm_tokens env0 w0 (VStr ''ghost'') ''user'' = ([], log_event (UserGet ''ghost'') w0)
   \<and> users w_empty_list ''E'' \<noteq> None
   \<and> fst (get_user_fcm_tokens env0 w_empty_list (VStr ''E'') ''user'') = []"
  by (simp add: model_defs env0_def w0_def w_empty_list_def)

text \<open>
  Claim C7, amended. \<open>get_user_fcm_tokens\<close> returns the empty list, not an error, when no
  record exists for the recipient id. When the record exists and is read, the result is
  the non-empty strings among the entries it holds, in order: every other entry is
  dropped, so a record with no valid entry, with a field of another type or with no
  field resolves to the empty list. Dropped entries do not count: \<open>tokens_targeted\<close> is
  the length of the resolved list.
\<close>

theorem resolve_targets_filtered:
  "(users w k = None \<longrightarrow> fst (get_user_fcm_tokens e w (VStr k) ut) = [])
   \<and> (db_present e2 \<and> \<not> store_raises e2 (length (trace w2)) \<and> users w2 k2 = Some d \<longrightarrow>
        map VStr (fst (get_user_fcm_tokens e2 w2 (VStr k2) ut2))
          = filter well_formed_target (stored_entries (dict_get d ''fcmTokens'')))
   \<and> (fst (send_notifications_to_user e3 w3 u3 ut3 title body data hp) = Inr (Summary s) \<longrightarrow>
        tokens_targeted s = length (fst (get_user_fcm_tokens e3 w3 u3 ut3)))"
proof (intro conjI impI)
  assume "users w k = None"
  then show "fst (get_user_fcm_tokens e w (VStr k) ut) = []" by (rule get_tokens_absent)
next
  assume "db_present e2 \<and> \<not> store_raises e2 (length (trace w2)) \<and> users w2 k2 = Some d"
  then show "map VStr (fst (get_user_fcm_tokens e2 w2 (VStr k2) ut2))
          = filter well_formed_target (stored_entries (dict_get d ''fcmTokens''))"
    using get_tokens_present[of e2 w2 k2 d ut2] by blast
next
  assume "fst (send_notifications_to_user e3 w3 u3 ut3 title body data hp) = Inr (Summary s)"
  from fanout_obs(3)[OF this] show "tokens_targeted s = length (fst (get_user_fcm_tokens e3 w3 u3 ut3))"
    by simp
qed

theorem resolve_targets_filtered_witness:
  "users w0 ''ghost'' = None
   \<and> fst (get_user_fcm_tokens env0 w0 (VStr ''ghost'') ''user'') = []
   \<and> db_present env0 \<and> \<not> store_raises env0 (length (trace w_mixed))
   \<and> users w_mixed ''M'' = Some [''fcmTokens'' \<mapsto> VList mixed_list]
   \<and> map VStr (fst (get_user_fcm_tokens env0 w_mixed (VStr ''M'') ''user'')) = [VStr ''a'', VStr ''b'']
   \<and> fst (send_notifications_to_user env0 w0 (VStr ''R'') ''user'' ''Hi'' ''There'' None False)
        = Inr (Summary summary0)
   \<and> tokens_targeted summary0 = length (fst (get_user_fcm_tokens env0 w0 (VStr ''R'') ''user''))"
proof -
  have a: "users w0 ''ghost'' = None" by (simp add: w0_def)
  have b: "db_present env0 \<and> \<not> store_raises env0 (length (trace w_mixed))
        \<and> users w_mixed ''M'' = Some [''fcmTokens'' \<mapsto> VList mixed_list]"
    by (simp add: env0_def w_mixed_def)
  have f: "filter well_formed_target
             (stored_entries (dict_get [''fcmTokens'' \<mapsto> VList mixed_list] ''fcmTokens''))
           = [VStr ''a'', VStr ''b'']"
    by (simp add: mixed_list_def dict_get_def)
  note th = resolve_targets_filtered[of w0 "''ghost''" env0 "''user''"
      env0 w_mixed "''M''" "[''fcmTokens'' \<mapsto> VList mixed_list]" "''user''"
      env0 w0 "VStr ''R''" "''user''" "''Hi''" "''There''" None False summary0]
  from th a have "fst (get_user_fcm_tokens env0 w0 (VStr ''ghost'') ''user'') = []" by blast
  moreover from th b f
  have "map VStr (fst (get_user_fcm_tokens env0 w_mixed (VStr ''M'') ''user'')) = [VStr ''a'', VStr ''b'']"
    by simp
  moreover from th run0
  have "tokens_targeted summary0 = length (fst (get_user_fcm_tokens env0 w0 (VStr ''R'') ''user''))"
    by blast
  ultimately show ?thesis using a b run0 by blast
qed

text \<open>
  Claim C8, as stated, at a concrete input: the stored list \<open>[a, a, '', b]\<close> is pruned of
  \<open>b\<close>; the prune succeeds and the list stored afterwards still has a duplicate and an
  empty string.
\<close>

theorem prune_counterexample:
  "fst (remove_unregistered_token env0 w_dup (VStr ''R'') ''b'') = True
   \<and> users (snd (remove_unregistered_token env0 w_dup (VStr ''R'') ''b'')) ''R''
       = Some [''fcmTokens'' \<mapsto> VList [VStr ''a'', VStr ''a'', VStr '''']]
   \<and> \<not> distinct [VStr ''a'', VStr ''a'', VStr '''']
   \<and> VStr '''' \<in> set [VStr ''a'', VStr ''a'', VStr '''']"
  by (simp add: model_defs env0_def w_dup_def)

text \<open>
  Claim C8, amended. A successful prune removes one occurrence of the token from a
  stored list, or deletes a stored single string, and changes nothing else: the user's
  other fields, the other users and the appointments are as they were. So if the stored
  list had no duplicate and no empty-string entry before, it has none afterwards.
\<close>

theorem prune_preserves_well_formed_list:
  assumes "fst (remove_unregistered_token e w (VStr k) t)" and "users w k = Some d"
  shows "users (snd (remove_unregistered_token e w (VStr k) t)) = (users w)(k \<mapsto> pruned_doc d t)
         \<and> appointments (snd (remove_unregistered_token e w (VStr k) t)) = appointments w
         \<and> (tokens_ok d \<longrightarrow> tokens_ok (pruned_doc d t))"
proof -
  obtain w' where run: "remove_unregistered_token e w (VStr k) t = (True, w')"
    using assms(1) by (cases "remove_unregistered_token e w (VStr k) t") auto
  from prune_success_doc[OF run assms(2)] run
  have "users (snd (remove_unregistered_token e w (VStr k) t)) = (users w)(k \<mapsto> pruned_doc d t)"
    by simp
  moreover from remove_unregistered_token_trace[OF run] run
  have "appointments (snd (remove_unregistered_token e w (VStr k) t)) = appointments w"
    by simp
  ultimately show ?thesis using pruned_doc_ok[of d t] by blast
qed

theorem prune_preserves_well_formed_list_witness:
  "fst (remove_unregistered_token env0 w0 (VStr ''R'') ''t2'')
   \<and> users w0 ''R'' = Some [''fcmTokens'' \<mapsto> VList [VStr ''t1'', VStr ''t2'']]
   \<and> tokens_ok [''fcmTokens'' \<mapsto> VList [VStr ''t1'', VStr ''t2'']]
   \<and> users (snd (remove_unregistered_token env0 w0 (VStr ''R'') ''t2'')) ''R''
        = Some [''fcmTokens'' \<mapsto> VList [VStr ''t1'']]
   \<and> tokens_ok [''fcmTokens'' \<mapsto> VList [VStr ''t1'']]"
proof -
  have p: "pruned_doc [''fcmTokens'' \<mapsto> VList [VStr ''t1'', VStr ''t2'']] ''t2''
             = [''fcmTokens'' \<mapsto> VList [VStr ''t1'']]"
    by (simp add: pruned_doc_def)
  note th = prune_preserves_well_formed_list[OF prune0(1,2)]
  from th p have "users (snd (remove_unregistered_token env0 w0 (VStr ''R'') ''t2'')) ''R''
        = Some [''fcmTokens'' \<mapsto> VList [VStr ''t1'']]"
    by simp
  moreover from th p prune0(3) have "tokens_ok [''fcmTokens'' \<mapsto> VList [VStr ''t1'']]"
    by simp
  ultimately show ?thesis using prune0 by blast
qed

text \<open>
  Claim C10. When the token field holds a single non-empty string and the store does not
  fail, resolving returns that one string, pruning it deletes the field and returns
  \<open>True\<close>, and resolving again returns the empty list.
\<close>

theorem single_string_token_roundtrip:
  assumes "db_present e" and "\<forall>n. \<not> store_raises e n"
    and "users w k = Some d" and "d ''fcmTokens'' = Some (VStr s)" and "s \<noteq> []"
  shows "fst (get_user_fcm_tokens e w (VStr k) ut) = [s]
         \<and> fst (remove_unregistered_token e w (VStr k) s) = True
         \<and> users (snd (remove_unregistered_token e w (VStr k) s)) k = Some (d(''fcmTokens'' := None))
         \<and> fst (get_user_fcm_tokens e (snd (remove_unregistered_token e w (VStr k) s)) (VStr k) ut2) = []"
  using assms
  by (simp add: get_user_fcm_tokens_def remove_unregistered_token_def user_doc_get_def
      user_ref_raises_def
      user_doc_update_def log_event_def dict_get_def Let_def)

theorem single_string_token_roundtrip_witness:
  "db_present env0 \<and> (\<forall>n. \<not> store_raises env0 n)
   \<and> users w_single ''S'' = Some [''fcmTokens'' \<mapsto> VStr ''tok'']
   \<and> fst (get_user_fcm_tokens env0 w_single (VStr ''S'') ''user'') = [''tok'']
   \<and> fst (remove_unregistered_token env0 w_single (VStr ''S'') ''tok'') = True
   \<and> users (snd (remove_unregistered_token env0 w_single (VStr ''S'') ''tok'')) ''S''
        = Some ([''fcmTokens'' \<mapsto> VStr ''tok''](''fcmTokens'' := None))
   \<and> fst (get_user_fcm_tokens env0 (snd (remove_unregistered_token env0 w_single (VStr ''S'') ''tok''))
            (VStr ''S'') ''user'') = []"
  using single_string_token_roundtrip[OF single0, of "''user''" "''user''"] single0
  by blast

section \<open>Appointment workflow\<close>

text \<open>
  Claim C1. When the services are up, the appointment exists, has a patient id, the
  acting doctor is authorized and the write succeeds, \<open>update_appointment_status\<close> writes
  the new status before the fanout starts, returns \<open>success\<close> with the fanout's result
  embedded, whatever that result is, and the stored status after the call is the new
  status: nothing the notification does undoes the write.
\<close>

theorem transition_survives_notification_failure:
  assumes "firebase_initialized e" and "db_present e"
    and "\<not> store_raises e (length (trace w))"
    and "appointments w (appointment_id p) = Some d"
    and "truthy (dict_get d ''patientId'')"
    and "\<not> actor_mismatch p d"
    and "\<not> store_raises e (Suc (length (trace w)))"
  shows "\<exists>nres w2 d2.
           fst (update_appointment_status e w p)
             = Inr \<lparr>wf_status = ''success'',
                     wf_message = ''Appointment status updated to '' @ status_value (new_status p),
                     notification_result = nres\<rparr>
         \<and> trace w2 = trace w @ [ApptGet (appointment_id p), ApptUpdate (appointment_id p)]
         \<and> appointments w2 (appointment_id p) = Some d2
         \<and> d2 ''status'' = Some (VStr (status_value (new_status p)))
         \<and> fst (send_notifications_to_user e w2 (dict_get d ''patientId'') ''patient''
                  (notif_title_of p) (notif_body_of e p d) (Some (data_payload_patient p)) True)
             = Inr nres
         \<and> trace (snd (update_appointment_status e w p))
             = trace w2 @ fanout_events e w2 (dict_get d ''patientId'') ''patient''
                  (notif_title_of p) (notif_body_of e p d) (Some (data_payload_patient p)) True
         \<and> appointments (snd (update_appointment_status e w p)) (appointment_id p) = Some d2"
proof -
  define w2 where "w2 = w\<lparr>appointments := (appointments w)(appointment_id p \<mapsto>
                        d ++ map_of (update_data_of p (Suc (length (trace w))))),
                   trace := trace w @ [ApptGet (appointment_id p), ApptUpdate (appointment_id p)]\<rparr>"
  define d2 where "d2 = d ++ map_of (update_data_of p (Suc (length (trace w))))"
  let ?fan = "send_notifications_to_user e w2 (dict_get d ''patientId'') ''patient''
                  (notif_title_of p) (notif_body_of e p d) (Some (data_payload_patient p)) True"
  have chk: "failed_check p (Some d) = None"
    using assms(5,6) by (simp add: failed_check_def)
  from fanout_total[OF assms(1)] obtain nres w3 where fan: "?fan = (Inr nres, w3)" by blast
  have run: "update_appointment_status e w p =
      (Inr \<lparr>wf_status = ''success'',
             wf_message = ''Appointment status updated to '' @ status_value (new_status p),
             notification_result = nres\<rparr>, w3)"
    using workflow_accepted[OF assms(1,2,3,4) chk assms(7)] fan unfolding w2_def by simp
  have w3: "w3 = snd ?fan" using fan by simp
  have "trace w2 = trace w @ [ApptGet (appointment_id p), ApptUpdate (appointment_id p)]"
    by (simp add: w2_def)
  moreover have "appointments w2 (appointment_id p) = Some d2"
    by (simp add: w2_def d2_def)
  moreover have "d2 ''status'' = Some (VStr (status_value (new_status p)))"
    by (simp add: d2_def map_add_def update_data_status)
  moreover have "fst ?fan = Inr nres" using fan by simp
  moreover have "trace (snd (update_appointment_status e w p))
             = trace w2 @ fanout_events e w2 (dict_get d ''patientId'') ''patient''
                  (notif_title_of p) (notif_body_of e p d) (Some (data_payload_patient p)) True"
    using run w3 fanout_trace[of e w2] by simp
  moreover have "appointments (snd (update_appointment_status e w p)) (appointment_id p) = Some d2"
    using run w3 fanout_keeps_appointments[of e w2] by (simp add: w2_def d2_def)
  ultimately show ?thesis using run by auto
qed

theorem transition_survives_notification_failure_witness:
  "firebase_initialized env_down \<and> db_present env_down
   \<and> \<not> store_raises env_down (length (trace w_appt))
   \<and> appointments w_appt (appointment_id payload_confirm) = Some appt0
   \<and> truthy (dict_get appt0 ''patientId'')
   \<and> \<not> actor_mismatch payload_confirm appt0
   \<and> \<not> store_raises env_down (Suc (length (trace w_appt)))
   \<and> (\<exists>nres d2.
         fst (update_appointment_status env_down w_appt payload_confirm)
             = Inr \<lparr>wf_status = ''success'',
                     wf_message = ''Appointment status updated to '' @ status_value (new_status payload_confirm),
                     notification_result = nres\<rparr>
         \<and> result_status nres = ''failure''
         \<and> d2 ''status'' = Some (VStr (status_value (new_status payload_confirm)))
         \<and> appointments (snd (update_appointment_status env_down w_appt payload_confirm))
              (appointment_id payload_confirm) = Some d2)"
proof -
  from transition_survives_notification_failure[OF accept0]
  obtain nres w2 d2 where
    r: "fst (update_appointment_status env_down w_appt payload_confirm)
             = Inr \<lparr>wf_status = ''success'',
                     wf_message = ''Appointment status updated to '' @ status_value (new_status payload_confirm),
                     notification_result = nres\<rparr>"
    and s: "d2 ''status'' = Some (VStr (status_value (new_status payload_confirm)))"
    and a: "appointments (snd (update_appointment_status env_down w_appt payload_confirm))
              (appointment_id payload_confirm) = Some d2"
    by blast
  from r run_down have "result_status nres = ''failure''"
    by (auto simp: result_status_def)
  with r s a accept0 show ?thesis by blast
qed

text \<open>
  Claim C2, as stated, at a concrete input: the request supplies the empty string as the
  acting doctor's id, which is not the record's \<open>D\<close>. The endpoint's guard
  \<open>payload.doctor_id and ...\<close> takes the empty string for no id: the call is not
  rejected, it returns \<open>success\<close> and the stored status goes from \<open>pending\<close> to
  \<open>confirmed\<close>.
\<close>

theorem blank_actor_counterexample:
  "doctor_id payload_blank = Some []
   \<and> appointments w_appt ''A'' = Some appt0
   \<and> dict_get appt0 ''doctorId'' = VStr ''D''
   \<and> dict_get appt0 ''status'' = VStr ''pending''
   \<and> fst (update_appointment_status env_down w_appt payload_blank)
       = Inr \<lparr>wf_status = ''success'', wf_message = ''Appointment status updated to confirmed'',
               notification_result = Summary \<lparr>status = ''failure'', success_count = 0,
                  failure_count = 1, tokens_targeted = 1, tokens_removed = 0\<rparr>\<rparr>
   \<and> dict_get (the (appointments (snd (update_appointment_status env_down w_appt payload_blank)) ''A''))
        ''status'' = VStr ''confirmed''"
  by (simp add: workflow_defs model_defs env_down_def w_appt_def appt0_def payload_blank_def)

text \<open>
  Claim C2, amended. When the document reference is built and the read returns, a request
  whose appointment is absent, or has no patient id, or whose supplied, non-empty doctor
  id differs from the record's, raises the exception of that check (404, 500 with its own
  detail, 403; the three are distinct) after that single read: appointments and users
  are unchanged. Completeness is checked before authorization, so a request failing both
  is reported as incomplete.
\<close>

theorem rejected_request_leaves_record_unchanged:
  assumes "firebase_initialized e" and "db_present e"
    and "\<not> appointment_ref_raises e w (appointment_id p)"
    and "\<not> store_raises e (length (trace w))"
    and "failed_check p (appointments w (appointment_id p)) = Some err"
  shows "fst (update_appointment_status e w p) = Inl (HttpError (error_response err))
         \<and> appointments (snd (update_appointment_status e w p)) = appointments w
         \<and> users (snd (update_appointment_status e w p)) = users w
         \<and> events_since w (snd (update_appointment_status e w p)) = [ApptGet (appointment_id p)]
         \<and> inj error_response"
proof -
  have "inj error_response"
  proof (rule injI)
    fix x y assume "error_response x = error_response y"
    then show "x = y" by (cases x; cases y) simp_all
  qed
  with workflow_rejected[OF assms] show ?thesis
    by (simp add: log_event_def events_since_def)
qed

theorem rejected_request_leaves_record_unchanged_witness:
  "firebase_initialized env_down \<and> db_present env_down
   \<and> \<not> appointment_ref_raises env_down w_appt (appointment_id payload_intruder)
   \<and> \<not> store_raises env_down (length (trace w_appt))
   \<and> failed_check payload_intruder (appointments w_appt (appointment_id payload_intruder)) = Some Unauthorized
   \<and> fst (update_appointment_status env_down w_appt payload_intruder)
       = Inl (HttpError (HTTPException 403 ''Not authorized to update this appointment.''))
   \<and> appointments (snd (update_appointment_status env_down w_appt payload_intruder)) ''A'' = Some appt0
   \<and> appt0 ''status'' = Some (VStr ''pending'')"
proof -
  from rejected_request_leaves_record_unchanged[OF reject0]
  have "fst (update_appointment_status env_down w_appt payload_intruder)
          = Inl (HttpError (error_response Unauthorized))"
    and "appointments (snd (update_appointment_status env_down w_appt payload_intruder)) = appointments w_appt"
    by simp_all
  moreover have "appointments w_appt ''A'' = Some appt0" by (simp add: w_appt_def)
  moreover have "appt0 ''status'' = Some (VStr ''pending'')" by (simp add: appt0_def)
  ultimately show ?thesis using reject0 by simp
qed

end
